theory Spec2Isabelle
  imports Main
begin

section \<open>Python values and Django field declarations\<close>

text \<open>
  The repository is one module, \<^verbatim>\<open>src/api/models.py\<close>: Django model classes. A model
  class is data: class-level constants, choice tables and field declarations. The
  embedding keeps them as data, so that statements about the schema are statements about
  these lists.
\<close>

datatype py_value =
    PyNone
  | PyBool bool
  | PyInt int
  | PyStr string
  | PyOpaque string  \<comment> \<open>an object only known by where it comes from, e.g. the result of \<^verbatim>\<open>uuid.uuid4()\<close>\<close>

datatype field_class =
    AutoField | IntegerField | CharField | TextField | DateTimeField
  | BooleanField | UUIDField | ForeignKey | OneToOneField

datatype default_spec =
    NoDefault
  | DefaultValue py_value
  | DefaultCallable string

record field =
  f_name :: string
  f_class :: field_class
  f_default :: default_spec
  f_null :: bool
  f_choices :: "(py_value \<times> string) list option"
  f_max_length :: "nat option"
  f_auto_now :: bool
  f_auto_now_add :: bool
  f_primary_key :: bool
  f_to :: "string option"
  f_related_name :: "string option"

text \<open>A field declared with no option at all: Django's own defaults for every option.\<close>

definition mk_field :: "string \<Rightarrow> field_class \<Rightarrow> field" where
  "mk_field n c =
     \<lparr>f_name = n, f_class = c, f_default = NoDefault, f_null = False, f_choices = None,
      f_max_length = None, f_auto_now = False, f_auto_now_add = False,
      f_primary_key = False, f_to = None, f_related_name = None\<rparr>"

definition get_field :: "field list \<Rightarrow> string \<Rightarrow> field option" where
  "get_field fs n = find (\<lambda>f. f_name f = n) fs"

text \<open>
  A field with \<^verbatim>\<open>auto_now\<close> or \<^verbatim>\<open>auto_now_add\<close> is filled in by Django when the row is
  saved; Django marks it non-editable. The other fields hold what the caller stores.
\<close>

definition editable :: "field \<Rightarrow> bool" where
  "editable f = (\<not> f_auto_now f \<and> \<not> f_auto_now_add f)"

text \<open>
  Validation against \<^verbatim>\<open>choices\<close>: a field without choices takes any value, a field
  with choices takes the keys of its table.
\<close>

definition choice_keys :: "(py_value \<times> string) list \<Rightarrow> py_value list" where
  "choice_keys cs = map fst cs"

definition valid_choice :: "field \<Rightarrow> py_value \<Rightarrow> bool" where
  "valid_choice f v = (case f_choices f of None \<Rightarrow> True | Some cs \<Rightarrow> v \<in> set (choice_keys cs))"


section \<open>class Result\<close>

definition Result_WHITE_WINS :: string where "Result_WHITE_WINS = ''White wins''"
definition Result_BLACK_WINS :: string where "Result_BLACK_WINS = ''Black wins''"
definition Result_DRAW :: string where "Result_DRAW = ''Draw''"
definition Result_IN_PROGRESS :: string where "Result_IN_PROGRESS = ''In progress''"

definition Result_ABANDONED :: string where "Result_ABANDONED = ''Abandoned''"
definition Result_ADJUDICATION :: string where "Result_ADJUDICATION = ''Adjudication''"
definition Result_DEATH :: string where "Result_DEATH = ''Death''"
definition Result_EMERGENCY :: string where "Result_EMERGENCY = ''Emergency''"
definition Result_NORMAL :: string where "Result_NORMAL = ''Normal''"
definition Result_RULES_INFRACTION :: string where "Result_RULES_INFRACTION = ''Rules infraction''"
definition Result_TIME_FORFEIT :: string where "Result_TIME_FORFEIT = ''Time forfeit''"
definition Result_UNTERMINATED :: string where "Result_UNTERMINATED = ''Unterminated''"

definition RESULT_CHOICES :: "(py_value \<times> string) list" where
  "RESULT_CHOICES =
     [(PyStr Result_WHITE_WINS, ''White wins''),
      (PyStr Result_BLACK_WINS, ''Black wins''),
      (PyStr Result_DRAW, ''Drawn game''),
      (PyStr Result_IN_PROGRESS,
         ''Game still in progress, game abandoned, or result otherwise unknown'')]"

definition TERMINATION_CHOICES :: "(py_value \<times> string) list" where
  "TERMINATION_CHOICES =
     [(PyStr Result_ABANDONED, ''Abandoned game.''),
      (PyStr Result_ADJUDICATION, ''Result due to third party adjudication process.''),
      (PyStr Result_DEATH, ''One or both players died during the course of this game.''),
      (PyStr Result_EMERGENCY, ''Game concluded due to unforeseen circumstances.''),
      (PyStr Result_NORMAL, ''Game terminated in a normal fashion.''),
      (PyStr Result_RULES_INFRACTION,
         ''Administrative forfeit due to losing player's failure to observe either the Laws of Chess or the event regulations.''),
      (PyStr Result_TIME_FORFEIT,
         ''Loss due to losing player's failure to meet time control requirements.''),
      (PyStr Result_UNTERMINATED, ''Game not terminated.'')]"

definition Result_result :: field where
  "Result_result =
     (mk_field ''result'' TextField)
       \<lparr>f_default := DefaultValue (PyStr Result_IN_PROGRESS), f_choices := Some RESULT_CHOICES\<rparr>"

definition Result_termination :: field where
  "Result_termination =
     (mk_field ''termination'' TextField)
       \<lparr>f_default := DefaultValue (PyStr Result_UNTERMINATED),
        f_choices := Some TERMINATION_CHOICES\<rparr>"

definition Result_fields :: "field list" where
  "Result_fields = [Result_result, Result_termination]"


section \<open>class Claim\<close>

definition Claim_THREEFOLD_REPETITION :: string where "Claim_THREEFOLD_REPETITION = ''tr''"
definition Claim_FIFTY_MOVES :: string where "Claim_FIFTY_MOVES = ''ft''"
definition Claim_DRAW :: string where "Claim_DRAW = ''d''"

definition CLAIM_CHOICES :: "(py_value \<times> string) list" where
  "CLAIM_CHOICES =
     [(PyStr Claim_THREEFOLD_REPETITION, ''Threefold repetition''),
      (PyStr Claim_FIFTY_MOVES, ''Fifty moves''),
      (PyStr Claim_DRAW, ''Draw'')]"

definition Claim_claim_type :: field where
  "Claim_claim_type =
     (mk_field ''claim_type'' CharField)
       \<lparr>f_max_length := Some 2, f_choices := Some CLAIM_CHOICES\<rparr>"

definition Claim_fields :: "field list" where
  "Claim_fields = [Claim_claim_type]"



section \<open>Python's \<^verbatim>\<open>str.upper\<close> on ASCII text\<close>

definition ascii_lowercase :: string where
  "ascii_lowercase = ''abcdefghijklmnopqrstuvwxyz''"

definition ascii_uppercase :: string where
  "ascii_uppercase = ''ABCDEFGHIJKLMNOPQRSTUVWXYZ''"

definition upper_char :: "char \<Rightarrow> char" where
  "upper_char c =
     (case map_of (zip ascii_lowercase ascii_uppercase) c of None \<Rightarrow> c | Some u \<Rightarrow> u)"

definition upper :: "string \<Rightarrow> string" where
  "upper s = map upper_char s"


section \<open>class Board\<close>

definition BLACK_PIECES :: "string list" where
  "BLACK_PIECES = [''q'', ''k'', ''b'', ''n'', ''r'', ''p'']"

definition WHITE_PIECES :: "string list" where
  "WHITE_PIECES = map upper BLACK_PIECES"

definition STARTING_FEN :: string where
  "STARTING_FEN = ''rnbqkbnr/pppppppp/8/8/8/8/PPPPPPPP/RNBQKBNR w KQkq - 0 1''"

definition Board_fen :: field where
  "Board_fen = (mk_field ''fen'' TextField)\<lparr>f_default := DefaultValue (PyStr STARTING_FEN)\<rparr>"

definition Board_turn :: field where
  "Board_turn = (mk_field ''turn'' IntegerField)\<lparr>f_null := True\<rparr>"

definition Board_castling_xfen :: field where
  "Board_castling_xfen = (mk_field ''castling_xfen'' TextField)\<lparr>f_null := True\<rparr>"

definition Board_ep_square :: field where
  "Board_ep_square = (mk_field ''ep_square'' CharField)\<lparr>f_max_length := Some 2, f_null := True\<rparr>"

definition Board_fullmove_number :: field where
  "Board_fullmove_number =
     (mk_field ''fullmove_number'' IntegerField)\<lparr>f_default := DefaultValue (PyInt 1)\<rparr>"

definition Board_halfmove_clock :: field where
  "Board_halfmove_clock =
     (mk_field ''halfmove_clock'' IntegerField)\<lparr>f_default := DefaultValue (PyInt 0)\<rparr>"

definition Board_updated_at :: field where
  "Board_updated_at = (mk_field ''updated_at'' DateTimeField)\<lparr>f_auto_now := True\<rparr>"

definition Board_game_uuid :: field where
  "Board_game_uuid =
     (mk_field ''game_uuid'' UUIDField)\<lparr>f_default := DefaultCallable ''uuid.uuid4''\<rparr>"

definition Board_fields :: "field list" where
  "Board_fields =
     [Board_fen, Board_turn, Board_castling_xfen, Board_ep_square, Board_fullmove_number,
      Board_halfmove_clock, Board_updated_at, Board_game_uuid]"


section \<open>class Piece\<close>

definition BLACK_PAWN :: string where "BLACK_PAWN = ''P''"
definition BLACK_KNIGHT :: string where "BLACK_KNIGHT = ''N''"
definition BLACK_BISHOP :: string where "BLACK_BISHOP = ''B''"
definition BLACK_ROOK :: string where "BLACK_ROOK = ''R''"
definition BLACK_QUEEN :: string where "BLACK_QUEEN = ''Q''"
definition BLACK_KING :: string where "BLACK_KING = ''K''"
definition WHITE_PAWN :: string where "WHITE_PAWN = ''p''"
definition WHITE_KNIGHT :: string where "WHITE_KNIGHT = ''n''"
definition WHITE_BISHOP :: string where "WHITE_BISHOP = ''b''"
definition WHITE_ROOK :: string where "WHITE_ROOK = ''r''"
definition WHITE_QUEEN :: string where "WHITE_QUEEN = ''q''"
definition WHITE_KING :: string where "WHITE_KING = ''k''"

definition PIECE_CHOICES :: "(py_value \<times> string) list" where
  "PIECE_CHOICES =
     [(PyStr BLACK_PAWN, ''Black pawn''),
      (PyStr BLACK_KNIGHT, ''Black knight''),
      (PyStr BLACK_BISHOP, ''Black bishop''),
      (PyStr BLACK_ROOK, ''Black rook''),
      (PyStr BLACK_QUEEN, ''Black queen''),
      (PyStr BLACK_KING, ''Black king''),
      (PyStr WHITE_PAWN, ''White pawn''),
      (PyStr WHITE_KNIGHT, ''White knight''),
      (PyStr WHITE_BISHOP, ''White bishop''),
      (PyStr WHITE_ROOK, ''White rook''),
      (PyStr WHITE_QUEEN, ''White queen''),
      (PyStr WHITE_KING, ''White king'')]"

text \<open>
  Modelled from the spec: the square table of the chess library, which is not under
  \<^verbatim>\<open>src/\<close> (\<^verbatim>\<open>chess.SQUARE_NAMES\<close> and the module attributes \<^verbatim>\<open>chess.A1\<close> ...
  \<^verbatim>\<open>chess.H8\<close>). The spec: a square is an integer index 0-63, rank-major, bidirectionally
  mapped to algebraic notation such as e4. So the names run through the files a-h inside
  each rank 1-8, and the attribute named after a square holds its index, eight times the
  rank plus the file, both counted from 0.
\<close>

definition FILE_NAMES :: string where "FILE_NAMES = ''abcdefgh''"
definition RANK_NAMES :: string where "RANK_NAMES = ''12345678''"

definition SQUARE_NAMES :: "string list" where
  "SQUARE_NAMES = concat (map (\<lambda>r. map (\<lambda>f. [f, r]) FILE_NAMES) RANK_NAMES)"

fun index_of :: "'a \<Rightarrow> 'a list \<Rightarrow> nat option" where
  "index_of x [] = None"
| "index_of x (y # ys) = (if x = y then Some 0 else map_option Suc (index_of x ys))"

text \<open>
  \<^verbatim>\<open>getattr(chess, name)\<close>, restricted to the square attributes; any other name is
  None here (the source asks for square names only).
\<close>

definition chess_getattr :: "string \<Rightarrow> nat option" where
  "chess_getattr n =
     (case n of
        [f, r] \<Rightarrow>
          (case (index_of f (upper FILE_NAMES), index_of r RANK_NAMES) of
             (Some i, Some j) \<Rightarrow> Some (8 * j + i)
           | _ \<Rightarrow> None)
      | _ \<Rightarrow> None)"

text \<open>
  The comprehension \<^verbatim>\<open>[(getattr(chess, i.upper()), i.upper(),) for i in chess.SQUARE_NAMES]\<close>.
  A failing \<^verbatim>\<open>getattr\<close> raises and leaves no table: the result is an option.
\<close>

definition SQUARE_CHOICE :: "string \<Rightarrow> (py_value \<times> string) option" where
  "SQUARE_CHOICE i = map_option (\<lambda>v. (PyInt (int v), upper i)) (chess_getattr (upper i))"

definition SQUARE_CHOICES :: "(py_value \<times> string) list option" where
  "SQUARE_CHOICES = those (map SQUARE_CHOICE SQUARE_NAMES)"

definition Piece_piece_type :: field where
  "Piece_piece_type =
     (mk_field ''piece_type'' CharField)\<lparr>f_max_length := Some 1, f_choices := Some PIECE_CHOICES\<rparr>"

definition Piece_square :: field where
  "Piece_square =
     (mk_field ''square'' CharField)
       \<lparr>f_max_length := Some 2, f_choices := SQUARE_CHOICES, f_null := True\<rparr>"

definition Piece_captured :: field where
  "Piece_captured =
     (mk_field ''captured'' BooleanField)\<lparr>f_default := DefaultValue (PyBool False)\<rparr>"

definition Piece_board :: field where
  "Piece_board = (mk_field ''board'' ForeignKey)\<lparr>f_to := Some ''Board''\<rparr>"

definition Piece_fields :: "field list" where
  "Piece_fields = [Piece_piece_type, Piece_square, Piece_captured, Piece_board]"


section \<open>class Move and class Position\<close>

definition Move_timestamp :: field where
  "Move_timestamp = (mk_field ''timestamp'' DateTimeField)\<lparr>f_auto_now_add := True\<rparr>"

definition Move_piece :: field where
  "Move_piece = (mk_field ''piece'' ForeignKey)\<lparr>f_to := Some ''Piece''\<rparr>"

definition Move_from_square :: field where
  "Move_from_square = mk_field ''from_square'' TextField"

definition Move_to_square :: field where
  "Move_to_square = mk_field ''to_square'' TextField"

definition Move_fields :: "field list" where
  "Move_fields = [Move_timestamp, Move_piece, Move_from_square, Move_to_square]"

definition Position_piece_file :: field where
  "Position_piece_file = (mk_field ''piece_file'' CharField)\<lparr>f_max_length := Some 1\<rparr>"

definition Position_piece_rank :: field where
  "Position_piece_rank = (mk_field ''piece_rank'' CharField)\<lparr>f_max_length := Some 1\<rparr>"

definition Position_timestamp :: field where
  "Position_timestamp = (mk_field ''timestamp'' DateTimeField)\<lparr>f_auto_now_add := True\<rparr>"

definition Position_uuid :: field where
  "Position_uuid = (mk_field ''uuid'' UUIDField)\<lparr>f_default := DefaultCallable ''uuid.uuid4''\<rparr>"

definition Position_piece :: field where
  "Position_piece = (mk_field ''piece'' ForeignKey)\<lparr>f_to := Some ''Piece''\<rparr>"

definition Position_fields :: "field list" where
  "Position_fields =
     [Position_piece_file, Position_piece_rank, Position_timestamp, Position_uuid,
      Position_piece]"


section \<open>Exceptions and model instances\<close>

text \<open>
  A raise is a value: \<open>Inl\<close> of the exception. \<open>FromLibrary\<close> carries an exception
  raised inside a library call and not caught by the source, so it reaches the caller as
  it is.
\<close>

datatype type_error =
    UnexpectedKeywordArguments "string list"
  | StrReturnedNonString

datatype 'e py_exception =
    FromLibrary 'e
  | TypeError type_error
  | NameError string
  | AttributeError string

type_synonym row = "(string \<times> py_value) list"

text \<open>
  A model with no primary key of its own gets the implicit \<^verbatim>\<open>id\<close>. A relation is
  also reachable under its column name, the field name followed by \<^verbatim>\<open>_id\<close>, and the
  primary key under \<^verbatim>\<open>pk\<close>.
\<close>

definition implicit_id :: field where
  "implicit_id = (mk_field ''id'' AutoField)\<lparr>f_primary_key := True\<rparr>"

definition concrete_fields :: "field list \<Rightarrow> field list" where
  "concrete_fields fs = (if filter f_primary_key fs = [] then implicit_id # fs else fs)"

definition keyword_names :: "field \<Rightarrow> string list" where
  "keyword_names f =
     (if f_class f = ForeignKey then [f_name f, f_name f @ ''_id'']
      else if f_class f = OneToOneField then [f_name f, f_name f @ ''_id'']
      else [f_name f])"

definition accepted_keywords :: "field list \<Rightarrow> string list" where
  "accepted_keywords fs = ''pk'' # concat (map keyword_names (concrete_fields fs))"

text \<open>
  The value of a field the caller did not give: its default, the result of calling a
  callable default, the empty string for a text column that is not nullable, None
  otherwise.
\<close>

definition get_default :: "field \<Rightarrow> py_value" where
  "get_default f =
     (case f_default f of
        DefaultValue v \<Rightarrow> v
      | DefaultCallable c \<Rightarrow> PyOpaque c
      | NoDefault \<Rightarrow>
          (if f_null f then PyNone
           else if f_class f = CharField then PyStr []
           else if f_class f = TextField then PyStr []
           else PyNone))"

text \<open>
  The constructor of a Django model, called with keyword arguments only, as
  \<^verbatim>\<open>cls(**board_data)\<close> does: every keyword has to name a field of the model; the
  keywords that do not are collected, in the order of the call, and reported in one
  TypeError. (Reverse relations from other models, which no keyword of this module
  names, are left out.)
\<close>

definition Model_init :: "field list \<Rightarrow> (string \<times> py_value) list \<Rightarrow> 'e py_exception + row" where
  "Model_init fs kwargs =
     (let unexpected = filter (\<lambda>k. k \<notin> set (accepted_keywords fs)) (map fst kwargs)
      in if unexpected = []
         then Inr (map (\<lambda>f. (f_name f,
                               case map_of kwargs (f_name f) of
                                 None \<Rightarrow> get_default f
                               | Some v \<Rightarrow> v))
                       (concrete_fields fs))
         else Inl (TypeError (UnexpectedKeywordArguments unexpected)))"


section \<open>Board.from_fen\<close>

text \<open>
  What \<^verbatim>\<open>from_fen\<close> reads from the library's board object: the result of
  \<^verbatim>\<open>board.fen()\<close> and five attributes.
\<close>

record chess_board =
  fen :: py_value
  turn :: py_value
  castling_rights :: py_value
  ep_square :: py_value
  fullmove_number :: py_value
  halfmove_clock :: py_value

text \<open>
  \<^verbatim>\<open>chess.Board(fen)\<close> belongs to the chess library, not to this repository: it is the
  parameter \<open>chess_Board\<close>, which either raises (\<open>Inl\<close>) or returns the board. The
  source has no \<^verbatim>\<open>try\<close>: what the library raises leaves \<^verbatim>\<open>from_fen\<close> unchanged.
\<close>

definition board_data :: "chess_board \<Rightarrow> (string \<times> py_value) list" where
  "board_data board =
     [(''fen'', fen board),
      (''turn'', turn board),
      (''castling_rights'', castling_rights board),
      (''ep_square'', ep_square board),
      (''fullmove_number'', fullmove_number board),
      (''halfmove_clock'', halfmove_clock board)]"

definition from_fen :: "(string \<Rightarrow> 'e + chess_board) \<Rightarrow> string \<Rightarrow> 'e py_exception + row" where
  "from_fen chess_Board s =
     (case chess_Board s of
        Inl e \<Rightarrow> Inl (FromLibrary e)
      | Inr board \<Rightarrow> Model_init Board_fields (board_data board))"


section \<open>A FEN decoder after the spec\<close>

text \<open>
  Modelled from the spec: the FEN decoder behind \<^verbatim>\<open>chess.Board(fen)\<close>, which is the
  chess library's and not under \<^verbatim>\<open>src/\<close>. The spec: construction from FEN fails with
  ParseError when the string has the wrong field count, an invalid piece letter, a rank
  that does not sum to 8 files, or an out-of-range side, castling, en-passant or clock
  field. The board is 8 ranks of 8 files; the side is w or b; the castling rights are four
  independent booleans (K, Q, k, q, or - for none); the en-passant target is - or a
  square; the clocks are decimal numbers. The checks run in the order of the spec's
  sentence, and the first one that fails gives the error.
\<close>

datatype ParseError =
    WrongFieldCount
  | InvalidPieceLetter char
  | RankNotEightFiles string
  | NotEightRanks
  | SideOutOfRange string
  | CastlingOutOfRange string
  | EnPassantOutOfRange string
  | ClockOutOfRange string

text \<open>Python's \<^verbatim>\<open>s.split(sep)\<close> for a one-character separator.\<close>

fun str_split :: "char \<Rightarrow> string \<Rightarrow> string list" where
  "str_split sep [] = [[]]"
| "str_split sep (c # cs) =
     (if c = sep then [] # str_split sep cs
      else (case str_split sep cs of
              [] \<Rightarrow> [[c]]
            | w # ws \<Rightarrow> (c # w) # ws))"

definition parse_nat :: "string \<Rightarrow> nat option" where
  "parse_nat s =
     (if s = [] then None
      else map_option (foldl (\<lambda>a d. 10 * a + d) 0)
             (those (map (\<lambda>c. index_of c ''0123456789'') s)))"

fun rank_files :: "string \<Rightarrow> ParseError + nat" where
  "rank_files [] = Inr 0"
| "rank_files (c # cs) =
     (if [c] \<in> set (BLACK_PIECES @ WHITE_PIECES)
      then (case rank_files cs of Inl e \<Rightarrow> Inl e | Inr n \<Rightarrow> Inr (Suc n))
      else (case index_of c ''12345678'' of
              None \<Rightarrow> Inl (InvalidPieceLetter c)
            | Some d \<Rightarrow> (case rank_files cs of Inl e \<Rightarrow> Inl e | Inr n \<Rightarrow> Inr (Suc d + n))))"

fun check_ranks :: "string list \<Rightarrow> ParseError option" where
  "check_ranks [] = None"
| "check_ranks (r # rs) =
     (case rank_files r of
        Inl e \<Rightarrow> Some e
      | Inr n \<Rightarrow> (if n = 8 then check_ranks rs else Some (RankNotEightFiles r)))"

definition check_placement :: "string \<Rightarrow> ParseError option" where
  "check_placement p =
     (let ranks = str_split CHR ''/'' p
      in case check_ranks ranks of
           Some e \<Rightarrow> Some e
         | None \<Rightarrow> (if length ranks = 8 then None else Some NotEightRanks))"

definition parse_side :: "string \<Rightarrow> ParseError + bool" where
  "parse_side s =
     (if s = ''w'' then Inr True
      else if s = ''b'' then Inr False
      else Inl (SideOutOfRange s))"

text \<open>The four rights as one number, a bit each: K = 1, Q = 2, k = 4, q = 8.\<close>

definition parse_castling :: "string \<Rightarrow> ParseError + nat" where
  "parse_castling s =
     (if s = ''-'' then Inr 0
      else if s = [] then Inl (CastlingOutOfRange s)
      else if distinct s
      then (case those (map (\<lambda>c. index_of c ''KQkq'') s) of
              None \<Rightarrow> Inl (CastlingOutOfRange s)
            | Some bits \<Rightarrow> Inr (sum_list (map (\<lambda>b. 2 ^ b) bits)))
      else Inl (CastlingOutOfRange s))"

definition parse_ep_square :: "string \<Rightarrow> ParseError + nat option" where
  "parse_ep_square s =
     (if s = ''-'' then Inr None
      else (case index_of s SQUARE_NAMES of
              None \<Rightarrow> Inl (EnPassantOutOfRange s)
            | Some i \<Rightarrow> Inr (Some i)))"

definition parse_clock :: "string \<Rightarrow> ParseError + nat" where
  "parse_clock s = (case parse_nat s of None \<Rightarrow> Inl (ClockOutOfRange s) | Some n \<Rightarrow> Inr n)"

definition square_value :: "nat option \<Rightarrow> py_value" where
  "square_value sq = (case sq of None \<Rightarrow> PyNone | Some i \<Rightarrow> PyInt (int i))"

text \<open>
  The decoded board, as the six values \<^verbatim>\<open>from_fen\<close> reads. By the spec's round trip,
  encoding the decoded position gives the FEN string back.
\<close>

definition decode_fen :: "string \<Rightarrow> ParseError + chess_board" where
  "decode_fen s =
     (case str_split CHR '' '' s of
        [p, side, castling, ep, half, full] \<Rightarrow>
          (case check_placement p of
             Some e \<Rightarrow> Inl e
           | None \<Rightarrow>
          (case parse_side side of
             Inl e \<Rightarrow> Inl e
           | Inr white \<Rightarrow>
          (case parse_castling castling of
             Inl e \<Rightarrow> Inl e
           | Inr rights \<Rightarrow>
          (case parse_ep_square ep of
             Inl e \<Rightarrow> Inl e
           | Inr sq \<Rightarrow>
          (case parse_clock half of
             Inl e \<Rightarrow> Inl e
           | Inr h \<Rightarrow>
          (case parse_clock full of
             Inl e \<Rightarrow> Inl e
           | Inr n \<Rightarrow>
               Inr \<lparr>fen = PyStr s, turn = PyBool white, castling_rights = PyInt (int rights),
                    ep_square = square_value sq, fullmove_number = PyInt (int n),
                    halfmove_clock = PyInt (int h)\<rparr>))))))
      | _ \<Rightarrow> Inl WrongFieldCount)"


section \<open>The \<^verbatim>\<open>__str__\<close> methods\<close>

text \<open>
  A method body sees three scopes: its own local names (here the parameter
  \<^verbatim>\<open>self\<close> alone), the names bound at the top level of the module, and Python's
  builtins. The names bound in a class body, the fields among them, are attributes of the
  class and of its instances: a method reaches them through \<^verbatim>\<open>self\<close> only.
\<close>

definition module_globals :: "string list" where
  "module_globals =
     [''chess'', ''uuid'', ''random'',
      ''Model'', ''IntegerField'', ''CharField'', ''TextField'', ''DateTimeField'',
      ''BooleanField'', ''UUIDField'', ''OneToOneField'', ''ForeignKey'', ''CASCADE'',
      ''settings'',
      ''Elo'', ''Result'', ''Board'', ''Piece'', ''Game'', ''Move'', ''Position'', ''Claim'',
      ''ClaimItem'']"

text \<open>Python's built-in functions and constants (the exception classes are left out).\<close>

definition builtin_names :: "string list" where
  "builtin_names =
     [''abs'', ''aiter'', ''all'', ''anext'', ''any'', ''ascii'', ''bin'', ''bool'',
      ''breakpoint'', ''bytearray'', ''bytes'', ''callable'', ''chr'', ''classmethod'',
      ''compile'', ''complex'', ''delattr'', ''dict'', ''dir'', ''divmod'', ''enumerate'',
      ''eval'', ''exec'', ''filter'', ''float'', ''format'', ''frozenset'', ''getattr'',
      ''globals'', ''hasattr'', ''hash'', ''help'', ''hex'', ''id'', ''input'', ''int'',
      ''isinstance'', ''issubclass'', ''iter'', ''len'', ''list'', ''locals'', ''map'',
      ''max'', ''memoryview'', ''min'', ''next'', ''object'', ''oct'', ''open'', ''ord'',
      ''pow'', ''print'', ''property'', ''range'', ''repr'', ''reversed'', ''round'',
      ''set'', ''setattr'', ''slice'', ''sorted'', ''staticmethod'', ''str'', ''sum'',
      ''super'', ''tuple'', ''type'', ''vars'', ''zip'', ''__import__'',
      ''False'', ''True'', ''None'', ''NotImplemented'', ''Ellipsis'', ''__debug__'']"

datatype expr =
    Name string
  | Attribute string string  \<comment> \<open>\<^verbatim>\<open>obj.attr\<close>, the object given by a name\<close>

datatype body =
    Return expr
  | ReturnFormat "expr list"  \<comment> \<open>\<^verbatim>\<open>return f'{e1}{e2}...'\<close>\<close>

text \<open>
  The value of a name or of an attribute. An object other than a model row is only
  known by its name.
\<close>

fun eval_expr :: "(string \<times> row) list \<Rightarrow> expr \<Rightarrow> 'e py_exception + py_value" where
  "eval_expr locals (Name n) =
     (if n \<in> set (map fst locals) then Inr (PyOpaque n)
      else if n \<in> set module_globals then Inr (PyOpaque n)
      else if n \<in> set builtin_names then Inr (PyOpaque n)
      else Inl (NameError n))"
| "eval_expr locals (Attribute n a) =
     (case map_of locals n of
        Some inst \<Rightarrow>
          (case map_of inst a of
             None \<Rightarrow> Inl (AttributeError a)
           | Some v \<Rightarrow> Inr v)
      | None \<Rightarrow>
          (if n \<in> set module_globals then Inr (PyOpaque (n @ ''.'' @ a))
           else if n \<in> set builtin_names then Inr (PyOpaque (n @ ''.'' @ a))
           else Inl (NameError n)))"

text \<open>The replacement fields of an f-string are evaluated from left to right.\<close>

fun eval_exprs :: "(string \<times> row) list \<Rightarrow> expr list \<Rightarrow> 'e py_exception + py_value list" where
  "eval_exprs locals [] = Inr []"
| "eval_exprs locals (e # es) =
     (case eval_expr locals e of
        Inl x \<Rightarrow> Inl x
      | Inr v \<Rightarrow> (case eval_exprs locals es of Inl x \<Rightarrow> Inl x | Inr vs \<Rightarrow> Inr (v # vs)))"

text \<open>\<^verbatim>\<open>str(v)\<close>, as an f-string formats a value.\<close>

function show_nat :: "nat \<Rightarrow> string" where
  "show_nat n =
     (if n < 10 then [''0123456789'' ! n]
      else show_nat (n div 10) @ [''0123456789'' ! (n mod 10)])"
  by pat_completeness auto
termination
  by (relation "measure id") auto

declare show_nat.simps [simp del]

definition py_str :: "py_value \<Rightarrow> string" where
  "py_str v =
     (case v of
        PyNone \<Rightarrow> ''None''
      | PyBool b \<Rightarrow> (if b then ''True'' else ''False'')
      | PyInt i \<Rightarrow> (if i < 0 then CHR ''-'' # show_nat (nat (- i)) else show_nat (nat i))
      | PyStr s \<Rightarrow> s
      | PyOpaque s \<Rightarrow> s)"

text \<open>
  \<^verbatim>\<open>str(obj)\<close> calls the method with \<^verbatim>\<open>self\<close> bound to the row, and raises a
  TypeError when the method returns something that is not a string.
\<close>

definition call_str :: "body \<Rightarrow> row \<Rightarrow> 'e py_exception + string" where
  "call_str b self =
     (case b of
        Return e \<Rightarrow>
          (case eval_expr [(''self'', self)] e of
             Inl x \<Rightarrow> Inl x
           | Inr (PyStr s) \<Rightarrow> Inr s
           | Inr _ \<Rightarrow> Inl (TypeError StrReturnedNonString))
      | ReturnFormat es \<Rightarrow>
          (case eval_exprs [(''self'', self)] es of
             Inl x \<Rightarrow> Inl x
           | Inr vs \<Rightarrow> Inr (concat (map py_str vs))))"

definition Result_str :: body where
  "Result_str = Return (Attribute ''self'' ''result'')"

definition Board_str :: body where
  "Board_str = Return (Attribute ''self'' ''fen'')"

definition Piece_str :: body where
  "Piece_str = Return (Attribute ''self'' ''piece_type'')"

definition Move_str :: body where
  "Move_str = ReturnFormat [Name ''from_square'', Name ''to_square'']"

definition Position_str :: body where
  "Position_str = ReturnFormat [Name ''piece_file'', Name ''piece_rank'']"

definition Claim_str :: body where
  "Claim_str = Return (Attribute ''self'' ''claim_type'')"


section \<open>Piece letters and colours\<close>

datatype colour = White | Black

definition opposite :: "colour \<Rightarrow> colour" where
  "opposite c = (case c of White \<Rightarrow> Black | Black \<Rightarrow> White)"

text \<open>The colour \<^verbatim>\<open>Board\<close> gives a letter: the list that holds it.\<close>

definition Board_colour :: "string \<Rightarrow> colour option" where
  "Board_colour p =
     (if p \<in> set WHITE_PIECES then Some White
      else if p \<in> set BLACK_PIECES then Some Black
      else None)"

text \<open>The colour \<^verbatim>\<open>Piece\<close> gives a letter: the first word of its label in \<^verbatim>\<open>PIECE_CHOICES\<close>.\<close>

definition label_colour :: "string \<Rightarrow> colour option" where
  "label_colour l =
     (if take 5 l = ''White'' then Some White
      else if take 5 l = ''Black'' then Some Black
      else None)"

definition Piece_colour :: "string \<Rightarrow> colour option" where
  "Piece_colour p =
     (case map_of PIECE_CHOICES (PyStr p) of None \<Rightarrow> None | Some l \<Rightarrow> label_colour l)"

text \<open>The piece letters of a FEN string: those of its first field, the placement.\<close>

definition fen_piece_letters :: "string \<Rightarrow> string list" where
  "fen_piece_letters s =
     filter (\<lambda>p. p \<in> set (BLACK_PIECES @ WHITE_PIECES))
       (map (\<lambda>c. [c]) (takeWhile (\<lambda>c. c \<noteq> CHR '' '') s))"


section \<open>Validation of a record\<close>

text \<open>
  Django checks \<^verbatim>\<open>choices\<close> when a record is validated (\<^verbatim>\<open>full_clean\<close>), field by
  field, and at no other time: the constructor \<open>Model_init\<close> stores what it is given. A
  record passes when each field holds a value and the value passes the check of the field.
\<close>

definition choices_valid :: "field list \<Rightarrow> row \<Rightarrow> bool" where
  "choices_valid fs r =
     list_all (\<lambda>f. case map_of r (f_name f) of None \<Rightarrow> False | Some v \<Rightarrow> valid_choice f v) fs"


section \<open>The FEN parser of the chess library\<close>

text \<open>
  \<^verbatim>\<open>chess.Board(fen)\<close> is the chess library's (python-chess), not this repository's, and
  \<open>from_fen\<close> takes it as a parameter. To run \<open>from_fen\<close> on a string the parameter
  has to be given: this section follows the library's \<^verbatim>\<open>Board.set_fen\<close> on ASCII text.
  The library splits the string at white space and takes the fields one by one; a
  trailing field that is missing gets its default (White to move, no castling right, no
  en-passant square, the clocks 0 and 1). It checks the fields that are present in their
  order, then that no field is left over, then the placement. Each check that fails
  raises ValueError.
\<close>

datatype ValueError =
    EmptyFen
  | InvalidTurnPart string
  | InvalidCastlingPart string
  | InvalidEnPassantPart string
  | InvalidHalfmoveClock string
  | InvalidFullmoveNumber string
  | MorePartsThanExpected
  | InvalidBoardPart string

text \<open>Python's \<^verbatim>\<open>s.split()\<close>: the runs of characters that are not white space.\<close>

definition whitespace :: "char list" where
  "whitespace =
     [CHR 0x09, CHR 0x0A, CHR 0x0B, CHR 0x0C, CHR 0x0D, CHR 0x1C, CHR 0x1D, CHR 0x1E,
      CHR 0x1F, CHR 0x20]"

fun split_whitespace :: "string \<Rightarrow> string \<Rightarrow> string list" where
  "split_whitespace acc [] = (if acc = [] then [] else [rev acc])"
| "split_whitespace acc (c # cs) =
     (if c \<in> set whitespace
      then (if acc = [] then split_whitespace [] cs else rev acc # split_whitespace [] cs)
      else split_whitespace (c # acc) cs)"

definition py_split :: "string \<Rightarrow> string list" where
  "py_split s = split_whitespace [] s"

text \<open>The field at a position, if the string has that many fields.\<close>

definition part :: "nat \<Rightarrow> string list \<Rightarrow> string option" where
  "part i ps = (if i < length ps then Some (ps ! i) else None)"

text \<open>
  Python's \<^verbatim>\<open>int(s)\<close> in base 10, on a string without white space: an optional sign,
  then digits, with single underscores allowed between digits.
\<close>

fun digits_value :: "bool \<Rightarrow> nat \<Rightarrow> string \<Rightarrow> nat option" where
  "digits_value after_digit n [] = (if after_digit then Some n else None)"
| "digits_value after_digit n (c # cs) =
     (case index_of c ''0123456789'' of
        Some d \<Rightarrow> digits_value True (10 * n + d) cs
      | None \<Rightarrow>
          (if c = CHR ''_'' then (if after_digit then digits_value False n cs else None)
           else None))"

definition py_int :: "string \<Rightarrow> int option" where
  "py_int s =
     (case s of
        [] \<Rightarrow> None
      | c # cs \<Rightarrow>
          (if c = CHR ''+'' then map_option int (digits_value False 0 cs)
           else if c = CHR ''-'' then map_option (\<lambda>n. - int n) (digits_value False 0 cs)
           else map_option int (digits_value False 0 s)))"

text \<open>
  The placement: 8 rows between slashes; in a row a digit 1-8 counts that many files and
  may not follow a digit, a piece letter of either case counts one, a tilde may follow a
  piece letter; each row has to count 8.
\<close>

definition lower_char :: "char \<Rightarrow> char" where
  "lower_char c =
     (case map_of (zip ascii_uppercase ascii_lowercase) c of None \<Rightarrow> c | Some l \<Rightarrow> l)"

definition PIECE_SYMBOLS :: string where
  "PIECE_SYMBOLS = ''pnbrqk''"

fun row_files :: "nat \<Rightarrow> bool \<Rightarrow> bool \<Rightarrow> string \<Rightarrow> nat option" where
  "row_files field_sum previous_was_digit previous_was_piece [] = Some field_sum"
| "row_files field_sum previous_was_digit previous_was_piece (c # cs) =
     (case index_of c ''12345678'' of
        Some d \<Rightarrow>
          (if previous_was_digit then None
           else row_files (field_sum + Suc d) True False cs)
      | None \<Rightarrow>
          (if c = CHR ''~''
           then (if previous_was_piece then row_files field_sum False False cs else None)
           else if lower_char c \<in> set PIECE_SYMBOLS
           then row_files (Suc field_sum) False True cs
           else None))"

definition board_fen_ok :: "string \<Rightarrow> bool" where
  "board_fen_ok p =
     (let rows = str_split CHR ''/'' p
      in if length rows = 8
         then list_all (\<lambda>r. row_files 0 False False r = Some 8) rows
         else False)"

text \<open>
  The castling field: a dash, or at most two of the letters K, Q, A-H followed by at most
  two of k, q, a-h.
\<close>

definition castling_matches :: "string \<Rightarrow> bool" where
  "castling_matches c =
     (if c = ''-'' then True
      else (let white = takeWhile (\<lambda>x. x \<in> set ''KQABCDEFGH'') c;
                black = dropWhile (\<lambda>x. x \<in> set ''KQABCDEFGH'') c
            in length white \<le> 2 \<and> length black \<le> 2
               \<and> list_all (\<lambda>x. x \<in> set ''kqabcdefgh'') black))"

definition turn_part :: "string option \<Rightarrow> ValueError + bool" where
  "turn_part p =
     (case p of
        None \<Rightarrow> Inr True
      | Some t \<Rightarrow>
          (if t = ''w'' then Inr True
           else if t = ''b'' then Inr False
           else Inl (InvalidTurnPart t)))"

definition castling_part :: "string option \<Rightarrow> ValueError + string" where
  "castling_part p =
     (case p of
        None \<Rightarrow> Inr ''-''
      | Some c \<Rightarrow> (if castling_matches c then Inr c else Inl (InvalidCastlingPart c)))"

definition ep_part :: "string option \<Rightarrow> ValueError + nat option" where
  "ep_part p =
     (case p of
        None \<Rightarrow> Inr None
      | Some e \<Rightarrow>
          (if e = ''-'' then Inr None
           else (case index_of e SQUARE_NAMES of
                   None \<Rightarrow> Inl (InvalidEnPassantPart e)
                 | Some i \<Rightarrow> Inr (Some i))))"

definition halfmove_part :: "string option \<Rightarrow> ValueError + int" where
  "halfmove_part p =
     (case p of
        None \<Rightarrow> Inr 0
      | Some h \<Rightarrow>
          (case py_int h of
             None \<Rightarrow> Inl (InvalidHalfmoveClock h)
           | Some n \<Rightarrow> (if n < 0 then Inl (InvalidHalfmoveClock h) else Inr n)))"

definition fullmove_part :: "string option \<Rightarrow> ValueError + int" where
  "fullmove_part p =
     (case p of
        None \<Rightarrow> Inr 1
      | Some f \<Rightarrow>
          (case py_int f of
             None \<Rightarrow> Inl (InvalidFullmoveNumber f)
           | Some n \<Rightarrow> (if n < 0 then Inl (InvalidFullmoveNumber f) else Inr (max n 1))))"

text \<open>
  The board the library returns, as the six values \<open>from_fen\<close> reads. The FEN the
  library writes back and its castling mask depend on the position; they are kept as
  opaque values, since \<open>from_fen\<close> only passes them on.
\<close>

definition set_fen :: "string \<Rightarrow> ValueError + chess_board" where
  "set_fen s =
     (let parts = py_split s
      in case part 0 parts of
           None \<Rightarrow> Inl EmptyFen
         | Some board_part \<Rightarrow>
          (case turn_part (part 1 parts) of
             Inl e \<Rightarrow> Inl e
           | Inr white \<Rightarrow>
          (case castling_part (part 2 parts) of
             Inl e \<Rightarrow> Inl e
           | Inr castling \<Rightarrow>
          (case ep_part (part 3 parts) of
             Inl e \<Rightarrow> Inl e
           | Inr sq \<Rightarrow>
          (case halfmove_part (part 4 parts) of
             Inl e \<Rightarrow> Inl e
           | Inr h \<Rightarrow>
          (case fullmove_part (part 5 parts) of
             Inl e \<Rightarrow> Inl e
           | Inr n \<Rightarrow>
               (if 6 < length parts then Inl MorePartsThanExpected
                else if board_fen_ok board_part
                then Inr \<lparr>fen = PyOpaque ''board.fen()'', turn = PyBool white,
                          castling_rights = PyOpaque ''board.castling_rights'',
                          ep_square = square_value sq, fullmove_number = PyInt n,
                          halfmove_clock = PyInt h\<rparr>
                else Inl (InvalidBoardPart board_part))))))))"

text \<open>
  The constructor of the library's board: the starting position is set up directly, any
  other string goes through \<open>set_fen\<close>.
\<close>

definition python_chess_Board :: "string \<Rightarrow> ValueError + chess_board" where
  "python_chess_Board s =
     (if s = STARTING_FEN
      then Inr \<lparr>fen = PyOpaque ''board.fen()'', turn = PyBool True,
                castling_rights = PyOpaque ''board.castling_rights'', ep_square = PyNone,
                fullmove_number = PyInt 1, halfmove_clock = PyInt 0\<rparr>
      else set_fen s)"


section \<open>The vocabulary of results, terminations and claims\<close>

text \<open>
  C4. The declared vocabulary is fixed: the choices of the result field of a Result are
  exactly the four values White wins, Black wins, Draw and In progress, with In progress
  the default, and the choices of its termination field exactly the eight values
  Abandoned, Adjudication, Death, Emergency, Normal, Rules infraction, Time forfeit and
  Unterminated, with Unterminated the default. A Result record passes validation exactly
  when its result is one of the four and its termination one of the eight; a Result built
  with no argument is in progress and unterminated. (The constructor does not check the
  choices: see the record below.)
\<close>

theorem Result_vocabulary:
  "choice_keys RESULT_CHOICES =
     map PyStr [''White wins'', ''Black wins'', ''Draw'', ''In progress'']
   \<and> choice_keys TERMINATION_CHOICES =
     map PyStr [''Abandoned'', ''Adjudication'', ''Death'', ''Emergency'', ''Normal'',
                ''Rules infraction'', ''Time forfeit'', ''Unterminated'']
   \<and> distinct (choice_keys RESULT_CHOICES) \<and> length RESULT_CHOICES = 4
   \<and> distinct (choice_keys TERMINATION_CHOICES) \<and> length TERMINATION_CHOICES = 8
   \<and> valid_choice Result_result v =
       (v \<in> PyStr ` {''White wins'', ''Black wins'', ''Draw'', ''In progress''})
   \<and> valid_choice Result_termination w =
       (w \<in> PyStr ` {''Abandoned'', ''Adjudication'', ''Death'', ''Emergency'', ''Normal'',
                      ''Rules infraction'', ''Time forfeit'', ''Unterminated''})
   \<and> f_default Result_result = DefaultValue (PyStr ''In progress'')
   \<and> f_default Result_termination = DefaultValue (PyStr ''Unterminated'')
   \<and> Model_init Result_fields []
       = Inr [(''id'', PyNone), (''result'', PyStr ''In progress''),
              (''termination'', PyStr ''Unterminated'')]
   \<and> choices_valid Result_fields r =
       (map_of r ''result''
          \<in> Some ` PyStr ` {''White wins'', ''Black wins'', ''Draw'', ''In progress''}
        \<and> map_of r ''termination''
          \<in> Some ` PyStr ` {''Abandoned'', ''Adjudication'', ''Death'', ''Emergency'',
                              ''Normal'', ''Rules infraction'', ''Time forfeit'',
                              ''Unterminated''})"
  by (auto simp add: choices_valid_def
      choice_keys_def valid_choice_def RESULT_CHOICES_def TERMINATION_CHOICES_def
      Result_result_def Result_termination_def Result_fields_def mk_field_def
      Model_init_def concrete_fields_def implicit_id_def get_default_def
      Result_WHITE_WINS_def Result_BLACK_WINS_def Result_DRAW_def Result_IN_PROGRESS_def
      Result_ABANDONED_def Result_ADJUDICATION_def Result_DEATH_def Result_EMERGENCY_def
      Result_NORMAL_def Result_RULES_INFRACTION_def Result_TIME_FORFEIT_def
      Result_UNTERMINATED_def split: option.splits)

text \<open>
  A Result record whose result is none of the four values: the constructor stores the
  value it is given, and only validation refuses it.
\<close>

theorem Result_record_counterexample:
  "(Model_init Result_fields [(''result'', PyStr ''banana'')] :: unit py_exception + row)
     = Inr [(''id'', PyNone), (''result'', PyStr ''banana''),
            (''termination'', PyStr ''Unterminated'')]
   \<and> PyStr ''banana''
       \<notin> PyStr ` {''White wins'', ''Black wins'', ''Draw'', ''In progress''}
   \<and> \<not> valid_choice Result_result (PyStr ''banana'')
   \<and> \<not> choices_valid Result_fields
         [(''id'', PyNone), (''result'', PyStr ''banana''),
          (''termination'', PyStr ''Unterminated'')]"
  by (simp add: choices_valid_def
      choice_keys_def valid_choice_def RESULT_CHOICES_def TERMINATION_CHOICES_def
      Result_result_def Result_termination_def Result_fields_def mk_field_def
      Model_init_def accepted_keywords_def keyword_names_def concrete_fields_def
      implicit_id_def get_default_def
      Result_WHITE_WINS_def Result_BLACK_WINS_def Result_DRAW_def Result_IN_PROGRESS_def
      Result_ABANDONED_def Result_ADJUDICATION_def Result_DEATH_def Result_EMERGENCY_def
      Result_NORMAL_def Result_RULES_INFRACTION_def Result_TIME_FORFEIT_def
      Result_UNTERMINATED_def)

text \<open>
  C7. The declared claim types are exactly three: threefold repetition (\<^verbatim>\<open>tr\<close>),
  fifty moves (\<^verbatim>\<open>ft\<close>) and draw (\<^verbatim>\<open>d\<close>). They are the choices of the claim type
  of a Claim, and a Claim record passes validation exactly when its claim type is one of
  them. (The constructor does not check the choices: see the records below.)
\<close>

theorem Claim_vocabulary:
  "CLAIM_CHOICES =
     [(PyStr ''tr'', ''Threefold repetition''), (PyStr ''ft'', ''Fifty moves''),
      (PyStr ''d'', ''Draw'')]
   \<and> distinct (choice_keys CLAIM_CHOICES) \<and> length CLAIM_CHOICES = 3
   \<and> valid_choice Claim_claim_type v = (v \<in> PyStr ` {''tr'', ''ft'', ''d''})
   \<and> choices_valid Claim_fields r
       = (map_of r ''claim_type'' \<in> Some ` PyStr ` {''tr'', ''ft'', ''d''})"
  by (auto simp add: choices_valid_def
      choice_keys_def valid_choice_def CLAIM_CHOICES_def Claim_claim_type_def
      Claim_fields_def mk_field_def Claim_THREEFOLD_REPETITION_def Claim_FIFTY_MOVES_def
      Claim_DRAW_def split: option.splits)

text \<open>
  Two Claim records whose claim type is none of the three values: one built with the
  claim type \<^verbatim>\<open>zz\<close>, and the one built with no argument, whose claim type is the empty
  string since the field has no default.
\<close>

theorem Claim_record_counterexample:
  "(Model_init Claim_fields [(''claim_type'', PyStr ''zz'')] :: unit py_exception + row)
     = Inr [(''id'', PyNone), (''claim_type'', PyStr ''zz'')]
   \<and> (Model_init Claim_fields [] :: unit py_exception + row)
     = Inr [(''id'', PyNone), (''claim_type'', PyStr [])]
   \<and> PyStr ''zz'' \<notin> PyStr ` {''tr'', ''ft'', ''d''}
   \<and> PyStr [] \<notin> PyStr ` {''tr'', ''ft'', ''d''}
   \<and> \<not> valid_choice Claim_claim_type (PyStr ''zz'')
   \<and> \<not> valid_choice Claim_claim_type (PyStr [])
   \<and> \<not> choices_valid Claim_fields [(''id'', PyNone), (''claim_type'', PyStr ''zz'')]
   \<and> \<not> choices_valid Claim_fields [(''id'', PyNone), (''claim_type'', PyStr [])]"
  by (simp add: choices_valid_def
      choice_keys_def valid_choice_def CLAIM_CHOICES_def Claim_claim_type_def
      Claim_fields_def mk_field_def Claim_THREEFOLD_REPETITION_def Claim_FIFTY_MOVES_def
      Claim_DRAW_def Model_init_def accepted_keywords_def keyword_names_def
      concrete_fields_def implicit_id_def get_default_def)


section \<open>The schema of Board and Move\<close>

text \<open>
  C9. The Board model declares a field for each of the six FEN components: fen (a text
  field whose default is the canonical starting position), turn, castling_xfen,
  ep_square (at most 2 characters), all three nullable and without default,
  fullmove_number with default 1 and halfmove_clock with default 0. A Board built from
  these six structured fields stores each of them as given.
\<close>

theorem Board_schema:
  "map (\<lambda>n. map_option (\<lambda>f. (f_class f, f_default f, f_null f, f_max_length f))
                (get_field Board_fields n))
     [''fen'', ''turn'', ''castling_xfen'', ''ep_square'', ''halfmove_clock'',
      ''fullmove_number'']
   = [Some (TextField,
            DefaultValue (PyStr ''rnbqkbnr/pppppppp/8/8/8/8/PPPPPPPP/RNBQKBNR w KQkq - 0 1''),
            False, None),
      Some (IntegerField, NoDefault, True, None),
      Some (TextField, NoDefault, True, None),
      Some (CharField, NoDefault, True, Some 2),
      Some (IntegerField, DefaultValue (PyInt 0), False, None),
      Some (IntegerField, DefaultValue (PyInt 1), False, None)]
   \<and> Model_init Board_fields
         [(''fen'', a), (''turn'', b), (''castling_xfen'', c), (''ep_square'', d),
          (''halfmove_clock'', h), (''fullmove_number'', n)]
       = Inr [(''id'', PyNone), (''fen'', a), (''turn'', b), (''castling_xfen'', c),
              (''ep_square'', d), (''fullmove_number'', n), (''halfmove_clock'', h),
              (''updated_at'', PyNone), (''game_uuid'', PyOpaque ''uuid.uuid4'')]"
  by (simp add: get_field_def Model_init_def accepted_keywords_def concrete_fields_def
      keyword_names_def implicit_id_def get_default_def Board_fields_def Board_fen_def
      Board_turn_def Board_castling_xfen_def Board_ep_square_def Board_fullmove_number_def
      Board_halfmove_clock_def Board_updated_at_def Board_game_uuid_def mk_field_def
      STARTING_FEN_def)

text \<open>
  C5. The Move model declares the fields timestamp, piece, from_square and to_square and
  no other. The timestamp is set by Django when the row is created, so what the caller
  stores is the piece (a reference to a Piece), the from-square and the to-square (two
  text fields): there is no promotion field and no flag (no boolean field at all).
\<close>

theorem Move_stored_data:
  "map f_name Move_fields = [''timestamp'', ''piece'', ''from_square'', ''to_square'']
   \<and> map (\<lambda>f. (f_name f, f_class f, f_to f)) (filter editable Move_fields)
       = [(''piece'', ForeignKey, Some ''Piece''), (''from_square'', TextField, None),
          (''to_square'', TextField, None)]
   \<and> filter (\<lambda>f. f_class f = BooleanField) Move_fields = []
   \<and> (get_field Move_fields n = None)
       = (n \<notin> {''timestamp'', ''piece'', ''from_square'', ''to_square''})"
  by (simp add: get_field_def Move_fields_def Move_timestamp_def Move_piece_def
      Move_from_square_def Move_to_square_def mk_field_def editable_def)


section \<open>Squares and piece letters\<close>

lemma upper_char_simps:
  "upper_char CHR ''a'' = CHR ''A''" "upper_char CHR ''b'' = CHR ''B''"
  "upper_char CHR ''c'' = CHR ''C''" "upper_char CHR ''d'' = CHR ''D''"
  "upper_char CHR ''e'' = CHR ''E''" "upper_char CHR ''f'' = CHR ''F''"
  "upper_char CHR ''g'' = CHR ''G''" "upper_char CHR ''h'' = CHR ''H''"
  "upper_char CHR ''1'' = CHR ''1''" "upper_char CHR ''2'' = CHR ''2''"
  "upper_char CHR ''3'' = CHR ''3''" "upper_char CHR ''4'' = CHR ''4''"
  "upper_char CHR ''5'' = CHR ''5''" "upper_char CHR ''6'' = CHR ''6''"
  "upper_char CHR ''7'' = CHR ''7''" "upper_char CHR ''8'' = CHR ''8''"
  by (simp_all add: upper_char_def ascii_lowercase_def ascii_uppercase_def)

lemma SQUARE_CHOICES_table:
  "SQUARE_CHOICES = Some
    [(PyInt 0, ''A1''), (PyInt 1, ''B1''), (PyInt 2, ''C1''), (PyInt 3, ''D1''),
     (PyInt 4, ''E1''), (PyInt 5, ''F1''), (PyInt 6, ''G1''), (PyInt 7, ''H1''),
     (PyInt 8, ''A2''), (PyInt 9, ''B2''), (PyInt 10, ''C2''), (PyInt 11, ''D2''),
     (PyInt 12, ''E2''), (PyInt 13, ''F2''), (PyInt 14, ''G2''), (PyInt 15, ''H2''),
     (PyInt 16, ''A3''), (PyInt 17, ''B3''), (PyInt 18, ''C3''), (PyInt 19, ''D3''),
     (PyInt 20, ''E3''), (PyInt 21, ''F3''), (PyInt 22, ''G3''), (PyInt 23, ''H3''),
     (PyInt 24, ''A4''), (PyInt 25, ''B4''), (PyInt 26, ''C4''), (PyInt 27, ''D4''),
     (PyInt 28, ''E4''), (PyInt 29, ''F4''), (PyInt 30, ''G4''), (PyInt 31, ''H4''),
     (PyInt 32, ''A5''), (PyInt 33, ''B5''), (PyInt 34, ''C5''), (PyInt 35, ''D5''),
     (PyInt 36, ''E5''), (PyInt 37, ''F5''), (PyInt 38, ''G5''), (PyInt 39, ''H5''),
     (PyInt 40, ''A6''), (PyInt 41, ''B6''), (PyInt 42, ''C6''), (PyInt 43, ''D6''),
     (PyInt 44, ''E6''), (PyInt 45, ''F6''), (PyInt 46, ''G6''), (PyInt 47, ''H6''),
     (PyInt 48, ''A7''), (PyInt 49, ''B7''), (PyInt 50, ''C7''), (PyInt 51, ''D7''),
     (PyInt 52, ''E7''), (PyInt 53, ''F7''), (PyInt 54, ''G7''), (PyInt 55, ''H7''),
     (PyInt 56, ''A8''), (PyInt 57, ''B8''), (PyInt 58, ''C8''), (PyInt 59, ''D8''),
     (PyInt 60, ''E8''), (PyInt 61, ''F8''), (PyInt 62, ''G8''), (PyInt 63, ''H8'')]"
  by (simp add: SQUARE_CHOICES_def SQUARE_NAMES_def SQUARE_CHOICE_def chess_getattr_def
      upper_def upper_char_simps FILE_NAMES_def RANK_NAMES_def)

text \<open>
  C8. The table SQUARE_CHOICES is built, and it pairs the indices 0, 1, ..., 63, in this
  order, with the names of the squares in upper case, each index with the name of its own
  square; no index and no name occurs twice, and there are 64 entries.
\<close>

theorem SQUARE_CHOICES_bijection:
  "\<exists>cs. SQUARE_CHOICES = Some cs
     \<and> map fst cs = map (\<lambda>i. PyInt (int i)) [0..<64]
     \<and> map snd cs = map upper SQUARE_NAMES
     \<and> map (\<lambda>(v, n). map_option (\<lambda>i. PyInt (int i)) (chess_getattr n)) cs
         = map (\<lambda>(v, n). Some v) cs
     \<and> distinct (map fst cs) \<and> distinct (map snd cs) \<and> length cs = 64"
  unfolding SQUARE_CHOICES_table
  by (simp add: SQUARE_NAMES_def chess_getattr_def upper_def upper_char_simps
      FILE_NAMES_def RANK_NAMES_def upt_rec)

lemma WHITE_PIECES_eq: "WHITE_PIECES = [''Q'', ''K'', ''B'', ''N'', ''R'', ''P'']"
  by (simp add: WHITE_PIECES_def BLACK_PIECES_def upper_def upper_char_def
      ascii_lowercase_def ascii_uppercase_def)

lemma Piece_colour_simps:
  "Piece_colour ''P'' = Some Black" "Piece_colour ''N'' = Some Black"
  "Piece_colour ''B'' = Some Black" "Piece_colour ''R'' = Some Black"
  "Piece_colour ''Q'' = Some Black" "Piece_colour ''K'' = Some Black"
  "Piece_colour ''p'' = Some White" "Piece_colour ''n'' = Some White"
  "Piece_colour ''b'' = Some White" "Piece_colour ''r'' = Some White"
  "Piece_colour ''q'' = Some White" "Piece_colour ''k'' = Some White"
  by (simp_all add: Piece_colour_def PIECE_CHOICES_def label_colour_def
      BLACK_PAWN_def BLACK_KNIGHT_def BLACK_BISHOP_def BLACK_ROOK_def BLACK_QUEEN_def
      BLACK_KING_def WHITE_PAWN_def WHITE_KNIGHT_def WHITE_BISHOP_def WHITE_ROOK_def
      WHITE_QUEEN_def WHITE_KING_def)

lemma Board_colour_simps:
  "Board_colour ''P'' = Some White" "Board_colour ''N'' = Some White"
  "Board_colour ''B'' = Some White" "Board_colour ''R'' = Some White"
  "Board_colour ''Q'' = Some White" "Board_colour ''K'' = Some White"
  "Board_colour ''p'' = Some Black" "Board_colour ''n'' = Some Black"
  "Board_colour ''b'' = Some Black" "Board_colour ''r'' = Some Black"
  "Board_colour ''q'' = Some Black" "Board_colour ''k'' = Some Black"
  by (simp_all add: Board_colour_def WHITE_PIECES_eq BLACK_PIECES_def)

lemma starting_letters:
  "fen_piece_letters STARTING_FEN =
     [''r'', ''n'', ''b'', ''q'', ''k'', ''b'', ''n'', ''r'',
      ''p'', ''p'', ''p'', ''p'', ''p'', ''p'', ''p'', ''p'',
      ''P'', ''P'', ''P'', ''P'', ''P'', ''P'', ''P'', ''P'',
      ''R'', ''N'', ''B'', ''Q'', ''K'', ''B'', ''N'', ''R'']"
  by (simp add: fen_piece_letters_def STARTING_FEN_def WHITE_PIECES_eq BLACK_PIECES_def)

text \<open>
  C6. Piece labels every letter of Board.BLACK_PIECES a White piece and every letter of
  Board.WHITE_PIECES a Black piece, while Board holds them for Black and for White; the
  keys of PIECE_CHOICES are these twelve letters; and each of the 32 piece letters of the
  default starting FEN gets from Piece the colour opposite to the one Board gives it.
\<close>

theorem piece_letters_swapped:
  "map Piece_colour BLACK_PIECES = replicate 6 (Some White)
   \<and> map Piece_colour WHITE_PIECES = replicate 6 (Some Black)
   \<and> map Board_colour BLACK_PIECES = replicate 6 (Some Black)
   \<and> map Board_colour WHITE_PIECES = replicate 6 (Some White)
   \<and> set (choice_keys PIECE_CHOICES) = PyStr ` set (BLACK_PIECES @ WHITE_PIECES)
   \<and> length (fen_piece_letters STARTING_FEN) = 32
   \<and> map Piece_colour (fen_piece_letters STARTING_FEN)
       = map (\<lambda>p. map_option opposite (Board_colour p)) (fen_piece_letters STARTING_FEN)
   \<and> f_default Board_fen = DefaultValue (PyStr STARTING_FEN)"
  unfolding starting_letters WHITE_PIECES_eq
  by (simp add: BLACK_PIECES_def Piece_colour_simps Board_colour_simps opposite_def
      numeral_eq_Suc choice_keys_def PIECE_CHOICES_def Board_fen_def mk_field_def
      BLACK_PAWN_def BLACK_KNIGHT_def BLACK_BISHOP_def BLACK_ROOK_def BLACK_QUEEN_def
      BLACK_KING_def WHITE_PAWN_def WHITE_KNIGHT_def WHITE_BISHOP_def WHITE_ROOK_def
      WHITE_QUEEN_def WHITE_KING_def insert_commute)


section \<open>What Board.from_fen returns\<close>

lemma castling_rights_unexpected:
  "filter (\<lambda>k. k \<notin> set (accepted_keywords Board_fields)) (map fst (board_data board))
     = [''castling_rights'']"
  by (simp add: accepted_keywords_def concrete_fields_def keyword_names_def implicit_id_def
      board_data_def Board_fields_def Board_fen_def Board_turn_def Board_castling_xfen_def
      Board_ep_square_def Board_fullmove_number_def Board_halfmove_clock_def
      Board_updated_at_def Board_game_uuid_def mk_field_def)

lemma Model_init_board_data:
  "Model_init Board_fields (board_data board)
     = Inl (TypeError (UnexpectedKeywordArguments [''castling_rights'']))"
  by (simp add: Model_init_def castling_rights_unexpected)

lemma decode_fen_STARTING_FEN:
  "decode_fen STARTING_FEN =
     Inr \<lparr>fen = PyStr STARTING_FEN, turn = PyBool True, castling_rights = PyInt 15,
          ep_square = PyNone, fullmove_number = PyInt 1, halfmove_clock = PyInt 0\<rparr>"
  by (simp add: decode_fen_def STARTING_FEN_def check_placement_def parse_side_def
      parse_castling_def parse_ep_square_def parse_clock_def parse_nat_def square_value_def
      BLACK_PIECES_def WHITE_PIECES_def upper_def upper_char_def ascii_lowercase_def
      ascii_uppercase_def)

text \<open>
  C1. Decoding a valid FEN through \<^verbatim>\<open>from_fen\<close> is meant to give a Board whose
  fields equal those of the FEN. At the canonical starting position the decoder accepts
  the string, with White to move, all four castling rights, no en-passant square and the
  clocks 0 and 1, and \<^verbatim>\<open>from_fen\<close> then raises a TypeError for the keyword
  castling_rights: no Board is built, so there are no fields to compare.
\<close>

theorem from_fen_starting_position:
  "decode_fen STARTING_FEN =
     Inr \<lparr>fen = PyStr STARTING_FEN, turn = PyBool True, castling_rights = PyInt 15,
          ep_square = PyNone, fullmove_number = PyInt 1, halfmove_clock = PyInt 0\<rparr>
   \<and> from_fen decode_fen STARTING_FEN
       = Inl (TypeError (UnexpectedKeywordArguments [''castling_rights'']))"
  by (simp add: from_fen_def decode_fen_STARTING_FEN Model_init_board_data)

text \<open>
  C2. \<^verbatim>\<open>from_fen\<close> never returns a Board, whatever the library does with the string:
  when the library raises, so does \<^verbatim>\<open>from_fen\<close>; when the library returns a board,
  the constructor raises a TypeError, because the keyword castling_rights names no field
  of Board (the field is castling_xfen).
\<close>

theorem from_fen_always_raises:
  "from_fen chess_Board s =
     (case chess_Board s of
        Inl e \<Rightarrow> Inl (FromLibrary e)
      | Inr board \<Rightarrow> Inl (TypeError (UnexpectedKeywordArguments [''castling_rights''])))
   \<and> \<not> (\<exists>b. from_fen chess_Board s = Inr b)
   \<and> get_field Board_fields ''castling_rights'' = None
   \<and> get_field Board_fields ''castling_xfen'' = Some Board_castling_xfen"
proof -
  have eq: "from_fen chess_Board s =
     (case chess_Board s of
        Inl e \<Rightarrow> Inl (FromLibrary e)
      | Inr board \<Rightarrow> Inl (TypeError (UnexpectedKeywordArguments [''castling_rights''])))"
    by (simp add: from_fen_def Model_init_board_data split: sum.split)
  have no: "\<not> (\<exists>b. from_fen chess_Board s = Inr b)"
    unfolding eq by (cases "chess_Board s") simp_all
  have fields: "get_field Board_fields ''castling_rights'' = None
      \<and> get_field Board_fields ''castling_xfen'' = Some Board_castling_xfen"
    by (simp add: get_field_def Board_fields_def Board_fen_def Board_turn_def
        Board_castling_xfen_def Board_ep_square_def Board_fullmove_number_def
        Board_halfmove_clock_def Board_updated_at_def Board_game_uuid_def mk_field_def)
  from eq no fields show ?thesis by blast
qed

text \<open>
  The library's parser on concrete strings: it refuses a seventh field, a wrong piece
  letter, a short rank and an out-of-range side, castling, en-passant or clock field, and
  it accepts a string that stops after five fields, and even after the placement.
\<close>

lemma python_chess_Board_refuses:
  "python_chess_Board ''rnbqkbnr/pppppppp/8/8/8/8/PPPPPPPP/RNBQKBNR w KQkq - 0 1 1''
     = Inl MorePartsThanExpected"
  "python_chess_Board ''rnbqkbnr/pppppppp/8/8/8/8/PPPPPPPP/RNBQXBNR w KQkq - 0 1''
     = Inl (InvalidBoardPart ''rnbqkbnr/pppppppp/8/8/8/8/PPPPPPPP/RNBQXBNR'')"
  "python_chess_Board ''rnbqkbnr/pppppppp/8/8/8/7/PPPPPPPP/RNBQKBNR w KQkq - 0 1''
     = Inl (InvalidBoardPart ''rnbqkbnr/pppppppp/8/8/8/7/PPPPPPPP/RNBQKBNR'')"
  "python_chess_Board ''rnbqkbnr/pppppppp/8/8/8/8/PPPPPPPP/RNBQKBNR x KQkq - 0 1''
     = Inl (InvalidTurnPart ''x'')"
  "python_chess_Board ''rnbqkbnr/pppppppp/8/8/8/8/PPPPPPPP/RNBQKBNR w KQkz - 0 1''
     = Inl (InvalidCastlingPart ''KQkz'')"
  "python_chess_Board ''rnbqkbnr/pppppppp/8/8/8/8/PPPPPPPP/RNBQKBNR w KQkq e9 0 1''
     = Inl (InvalidEnPassantPart ''e9'')"
  "python_chess_Board ''rnbqkbnr/pppppppp/8/8/8/8/PPPPPPPP/RNBQKBNR w KQkq - -1 1''
     = Inl (InvalidHalfmoveClock ''-1'')"
  by (simp_all add: python_chess_Board_def STARTING_FEN_def set_fen_def py_split_def
      whitespace_def part_def turn_part_def castling_part_def castling_matches_def
      ep_part_def halfmove_part_def fullmove_part_def py_int_def board_fen_ok_def
      lower_char_def PIECE_SYMBOLS_def ascii_lowercase_def ascii_uppercase_def
      SQUARE_NAMES_def FILE_NAMES_def RANK_NAMES_def square_value_def)




















section \<open>The \<^verbatim>\<open>__str__\<close> methods of Move and Position\<close>

text \<open>
  The methods that go through \<^verbatim>\<open>self\<close> return the field; so would the f-string of
  Move, had it been written with \<^verbatim>\<open>self.from_square\<close> and \<^verbatim>\<open>self.to_square\<close>.
\<close>

lemma Claim_str_returns_claim_type:
  "call_str Claim_str [(''id'', i), (''claim_type'', PyStr s)] = Inr s"
  by (simp add: call_str_def Claim_str_def)

lemma Board_str_returns_fen:
  "call_str Board_str ((''id'', i) # (''fen'', PyStr s) # rest) = Inr s"
  by (simp add: call_str_def Board_str_def)

lemma format_through_self:
  "call_str (ReturnFormat [Attribute ''self'' ''from_square'', Attribute ''self'' ''to_square''])
     [(''id'', i), (''timestamp'', t), (''piece'', p), (''from_square'', PyStr a),
      (''to_square'', PyStr b)]
   = Inr (a @ b)"
  by (simp add: call_str_def py_str_def)

text \<open>
  C10. Calling \<^verbatim>\<open>str()\<close> on a Move or on a Position raises a NameError, whatever the
  record holds: the names from_square and piece_file, the first the method bodies look
  up, are bound in no scope the method can see.
\<close>

theorem Move_Position_str_raise:
  "call_str Move_str m = Inl (NameError ''from_square'')
   \<and> call_str Position_str p = Inl (NameError ''piece_file'')"
  by (simp add: call_str_def Move_str_def Position_str_def module_globals_def
      builtin_names_def)

end
